theory Spec2Isabelle
  imports Main "HOL-Library.Sublist"
begin

section \<open>Python strings\<close>

text \<open>
  A Python \<open>str\<close> is a sequence of Unicode code points, so it is modelled as a list of
  natural numbers. ASCII literals of the source are written \<open>lit ''...''\<close>; the glyphs
  outside ASCII are written as their code points.

  The string methods the bot uses (\<open>split\<close>, \<open>strip\<close>, \<open>isdigit\<close>, \<open>lower\<close>) consult
  the Unicode tables of the Python runtime. On ASCII their behaviour is written out; outside
  ASCII it is taken from a parameter \<open>U\<close>, about which nothing is assumed.
\<close>

type_synonym pystr = "nat list"

text \<open>The exceptions that occur in the model.\<close>

datatype py_error =
  KeyError | TypeError | AttributeError | OverflowError | JSONDecodeError | ValueError
  | RecursionError

definition lit :: "string \<Rightarrow> pystr" where
  "lit s = map of_char s"

record unicode_db =
  u_isspace :: "nat \<Rightarrow> bool"
  u_isdigit :: "nat \<Rightarrow> bool"
  u_lower :: "pystr \<Rightarrow> pystr"

definition py_isspace :: "unicode_db \<Rightarrow> nat \<Rightarrow> bool" where
  "py_isspace U c =
     (if c < 128 then (9 \<le> c \<and> c \<le> 13) \<or> (28 \<le> c \<and> c \<le> 32) else u_isspace U c)"

definition py_isdigit_char :: "unicode_db \<Rightarrow> nat \<Rightarrow> bool" where
  "py_isdigit_char U c = (if c < 128 then 48 \<le> c \<and> c \<le> 57 else u_isdigit U c)"

text \<open>\<open>s.isdigit()\<close>: every character is a digit and there is at least one.\<close>

definition py_isdigit :: "unicode_db \<Rightarrow> pystr \<Rightarrow> bool" where
  "py_isdigit U s = (s \<noteq> [] \<and> list_all (py_isdigit_char U) s)"

definition ascii_lower :: "nat \<Rightarrow> nat" where
  "ascii_lower c = (if 65 \<le> c \<and> c \<le> 90 then c + 32 else c)"

text \<open>\<open>s.lower()\<close>: character-wise on an ASCII string, the runtime's mapping otherwise.\<close>

definition py_lower :: "unicode_db \<Rightarrow> pystr \<Rightarrow> pystr" where
  "py_lower U s = (if list_all (\<lambda>c. c < 128) s then map ascii_lower s else u_lower U s)"

text \<open>\<open>s.strip()\<close> removes leading and trailing whitespace.\<close>

definition py_strip :: "unicode_db \<Rightarrow> pystr \<Rightarrow> pystr" where
  "py_strip U s = rev (dropWhile (py_isspace U) (rev (dropWhile (py_isspace U) s)))"

text \<open>
  \<open>s.split()\<close> with no separator: the maximal runs of non-whitespace characters, in
  order. \<open>cur\<close> is the token being read.
\<close>

fun split_from :: "unicode_db \<Rightarrow> pystr \<Rightarrow> pystr \<Rightarrow> pystr list" where
  "split_from U cur [] = (if cur = [] then [] else [cur])"
| "split_from U cur (c # cs) =
     (if py_isspace U c
      then (if cur = [] then split_from U [] cs else cur # split_from U [] cs)
      else split_from U (cur @ [c]) cs)"

definition py_split :: "unicode_db \<Rightarrow> pystr \<Rightarrow> pystr list" where
  "py_split U s = split_from U [] s"

text \<open>\<open>s.replace(a, b)\<close> for one-character \<open>a\<close> and \<open>b\<close>.\<close>

definition py_replace :: "nat \<Rightarrow> nat \<Rightarrow> pystr \<Rightarrow> pystr" where
  "py_replace a b s = map (\<lambda>c. if c = a then b else c) s"

text \<open>\<open>sep.join(xs)\<close>.\<close>

fun py_join :: "pystr \<Rightarrow> pystr list \<Rightarrow> pystr" where
  "py_join sep [] = []"
| "py_join sep [x] = x"
| "py_join sep (x # y # ys) = x @ sep @ py_join sep (y # ys)"

text \<open>
  \<open>s * n\<close>: \<open>n\<close> copies of \<open>s\<close>, none when \<open>n\<close> is zero or negative. The count is
  converted to an index-sized integer first, which raises \<open>OverflowError\<close> when it does not
  fit (\<open>index_max\<close> is \<open>sys.maxsize\<close> of a 64-bit build of CPython), and so does a result
  longer than \<open>index_max\<close>. Below that limit the result is taken to be allocated: running
  out of memory is not modelled.
\<close>

definition index_max :: int where
  "index_max = 2 ^ 63 - 1"

definition fits_index :: "int \<Rightarrow> bool" where
  "fits_index n = (- index_max - 1 \<le> n \<and> n \<le> index_max)"

definition py_repeat :: "pystr \<Rightarrow> int \<Rightarrow> py_error + pystr" where
  "py_repeat s n =
     (if \<not> fits_index n then Inl OverflowError
      else if n \<le> 0 then Inr []
      else if int (length s) * n > index_max then Inl OverflowError
      else Inr (concat (replicate (nat n) s)))"

text \<open>The decimal text of an integer, as an f-string renders it.\<close>

fun digits :: "nat \<Rightarrow> pystr" where
  "digits n = (if n < 10 then [48 + n] else digits (n div 10) @ [48 + n mod 10])"

declare digits.simps [simp del]

definition str_int :: "int \<Rightarrow> pystr" where
  "str_int i = (if i < 0 then 45 # digits (nat (- i)) else digits (nat i))"

text \<open>\<open>s.find(c)\<close> and \<open>s.rfind(c)\<close> for a one-character needle: the index, or \<open>-1\<close>.\<close>

fun py_find :: "pystr \<Rightarrow> nat \<Rightarrow> int" where
  "py_find [] c = -1"
| "py_find (x # xs) c =
     (if x = c then 0 else (let r = py_find xs c in if r < 0 then -1 else r + 1))"

definition py_rfind :: "pystr \<Rightarrow> nat \<Rightarrow> int" where
  "py_rfind s c =
     (let r = py_find (rev s) c in if r < 0 then -1 else int (length s) - 1 - r)"

text \<open>\<open>s[i:j]\<close>: a negative bound counts from the end, and both are clipped to the string.\<close>

definition slice_bound :: "nat \<Rightarrow> int \<Rightarrow> nat" where
  "slice_bound n i = (if i < 0 then nat (max 0 (int n + i)) else min n (nat i))"

definition py_slice :: "pystr \<Rightarrow> int \<Rightarrow> int \<Rightarrow> pystr" where
  "py_slice s i j =
     (let a = slice_bound (length s) i; b = slice_bound (length s) j
      in take (b - a) (drop a s))"

section \<open>User profiles\<close>

record UserProfile =
  phone :: pystr
  name :: "pystr option"
  health_goals :: "pystr list"
  restrictions :: "pystr list"
  created_at :: pystr
  cart_checks :: int
  items_swapped :: int

definition is_profile_complete :: "UserProfile \<Rightarrow> bool" where
  "is_profile_complete profile =
     (length (health_goals profile) > 0 \<and> length (restrictions profile) > 0)"

section \<open>Catalogs\<close>

definition HEALTH_GOALS :: "(pystr \<times> pystr) list" where
  "HEALTH_GOALS =
     [(lit ''1'', lit ''Lower cholesterol''),
      (lit ''2'', lit ''Lose weight''),
      (lit ''3'', lit ''Manage diabetes''),
      (lit ''4'', lit ''Lower blood pressure''),
      (lit ''5'', lit ''Improve heart health''),
      (lit ''6'', lit ''General wellness'')]"

definition RESTRICTIONS :: "(pystr \<times> pystr) list" where
  "RESTRICTIONS =
     [(lit ''1'', lit ''No salt''),
      (lit ''2'', lit ''No oil''),
      (lit ''3'', lit ''No sugar''),
      (lit ''4'', lit ''No nuts''),
      (lit ''5'', lit ''No dairy''),
      (lit ''6'', lit ''No gluten''),
      (lit ''7'', lit ''No meat''),
      (lit ''8'', lit ''No eggs'')]"

text \<open>
  The two lines that \<open>handle_goals_response\<close> and \<open>handle_restrictions_response\<close> share:
  \<^verbatim>\<open>numbers = [n.strip() for n in message.replace(",", " ").split() if n.strip().isdigit()]\<close>
  \<^verbatim>\<open>selected = [CATALOG[n] for n in numbers if n in CATALOG]\<close>
\<close>

definition parse_numbers :: "unicode_db \<Rightarrow> pystr \<Rightarrow> pystr list" where
  "parse_numbers U message =
     map (py_strip U)
       (filter (\<lambda>n. py_isdigit U (py_strip U n)) (py_split U (py_replace 44 32 message)))"

definition select_from :: "(pystr \<times> pystr) list \<Rightarrow> pystr list \<Rightarrow> pystr list" where
  "select_from catalog numbers =
     map (\<lambda>n. the (map_of catalog n)) (filter (\<lambda>n. map_of catalog n \<noteq> None) numbers)"

section \<open>Cart analysis\<close>

text \<open>
  The dictionaries that \<open>json.loads\<close> returns are modelled with the types of the JSON shape
  the prompt asks for: an item is a dictionary from keys to strings, and an analysis has the
  optional keys \<open>error\<close>, \<open>raw\<close>, \<open>items_found\<close>, \<open>health_score\<close> and \<open>encouragement\<close>
  (\<open>None\<close> is a missing key). Values of other JSON types are outside the model.
\<close>

type_synonym item = "pystr \<rightharpoonup> pystr"

record analysis =
  error :: "pystr option"
  raw :: "pystr option"
  items_found :: "item list option"
  health_score :: "int option"
  encouragement :: "pystr option"

text \<open>
  The part of \<open>analyze_cart_with_claude\<close> after the HTTP call: \<open>status_code\<close> and
  \<open>content\<close> are the response's status and the model's text, \<open>json_loads\<close> is the JSON
  parser of the runtime, which returns a dictionary or raises (\<open>JSONDecodeError\<close> for text
  that is not JSON, \<open>RecursionError\<close> for text nested too deeply). The \<open>except\<close> clause
  catches \<open>JSONDecodeError\<close> and \<open>ValueError\<close>; any other exception leaves the function.
  The result \<open>None\<close> is Python's \<open>None\<close>.
\<close>

text \<open>The dictionary \<^verbatim>\<open>{"error": "Could not analyze cart", "raw": content}\<close>.\<close>

definition error_indicator :: "pystr \<Rightarrow> analysis" where
  "error_indicator content =
     \<lparr>error = Some (lit ''Could not analyze cart''), raw = Some content,
      items_found = None, health_score = None, encouragement = None\<rparr>"

definition analyze_cart_with_claude ::
  "(pystr \<Rightarrow> py_error + analysis) \<Rightarrow> int \<Rightarrow> pystr \<Rightarrow> py_error + analysis option" where
  "analyze_cart_with_claude json_loads status_code content =
     (if status_code \<noteq> 200 then Inr None
      else
        let start = py_find content 0x7B;
            stop = py_rfind content 0x7D + 1;
            json_str = py_slice content start stop
        in case json_loads json_str of
             Inr parsed \<Rightarrow> Inr (Some parsed)
           | Inl e \<Rightarrow>
               if e = JSONDecodeError \<or> e = ValueError
               then Inr (Some (error_indicator content))
               else Inl e)"

definition apology :: pystr where
  "apology =
     [0x1F914] @ lit '' I had trouble analyzing that image. Could you try taking another photo with better lighting? Make sure the items in your cart are clearly visible!''"

definition report_title :: pystr where
  "report_title = [0x1F6D2] @ lit '' *Your Cart Health Report*''"

definition report_rule :: pystr where
  "report_rule = replicate 17 0x2501"

text \<open>
  The f-string of the score line; its two repetitions are evaluated from left to right and
  the first that raises ends the formatting.
\<close>

definition score_line :: "int \<Rightarrow> py_error + pystr" where
  "score_line score =
     (case py_repeat [0x2B50] score of
        Inl e \<Rightarrow> Inl e
      | Inr filled \<Rightarrow>
          (case py_repeat [0x2606] (10 - score) of
             Inl e \<Rightarrow> Inl e
           | Inr unfilled \<Rightarrow>
               Inr (lit ''Health Score: '' @ filled @ unfilled
                      @ lit '' ('' @ str_int score @ lit ''/10)'')))"

definition good_heading :: pystr where
  "good_heading = [0x2705] @ lit '' *GREAT CHOICES:*''"

definition okay_heading :: pystr where
  "okay_heading = [0x1F44D] @ lit '' *OKAY IN MODERATION:*''"

definition reconsider_heading :: pystr where
  "reconsider_heading = [0x1F504] @ lit '' *CONSIDER SWAPPING:*''"

definition invitation :: pystr where
  "invitation = lit ''_Send another photo anytime!_''"

text \<open>\<open>i.get("category") == c\<close>.\<close>

definition has_category :: "pystr \<Rightarrow> item \<Rightarrow> bool" where
  "has_category c i = (i (lit ''category'') = Some c)"

text \<open>The truth value of \<open>item.get(key)\<close>: false for a missing key and for the empty string.\<close>

definition truthy :: "pystr option \<Rightarrow> bool" where
  "truthy v = (case v of None \<Rightarrow> False | Some s \<Rightarrow> s \<noteq> [])"

text \<open>
  \<^verbatim>\<open>for item in good_items: lines.append(f"  * {item['name']}")\<close> (the bullet is U+2022);
  \<open>item['name']\<close> raises \<open>KeyError\<close> when the key is missing.
\<close>

fun append_items :: "pystr list \<Rightarrow> item list \<Rightarrow> py_error + pystr list" where
  "append_items lines [] = Inr lines"
| "append_items lines (item # rest) =
     (case item (lit ''name'') of
        None \<Rightarrow> Inl KeyError
      | Some n \<Rightarrow> append_items (lines @ [lit ''  '' @ [0x2022] @ lit '' '' @ n]) rest)"

text \<open>The loop over \<open>reconsider_items\<close>, with the two optional sub-lines.\<close>

fun append_reconsider :: "pystr list \<Rightarrow> item list \<Rightarrow> py_error + pystr list" where
  "append_reconsider lines [] = Inr lines"
| "append_reconsider lines (item # rest) =
     (case item (lit ''name'') of
        None \<Rightarrow> Inl KeyError
      | Some n \<Rightarrow>
          (let lines1 = lines @ [lit ''  '' @ [0x2022] @ lit '' *'' @ n @ lit ''*''];
               lines2 = (if truthy (item (lit ''reason''))
                         then lines1 @ [lit ''    _'' @ the (item (lit ''reason'')) @ lit ''_'']
                         else lines1);
               lines3 = (if truthy (item (lit ''alternative''))
                         then lines2 @ [lit ''    '' @ [0x2192] @ lit '' Try: ''
                                          @ the (item (lit ''alternative''))]
                         else lines2)
           in append_reconsider lines3 rest))"

text \<open>One \<open>if good_items:\<close> block (and the two like it): the heading, the loop, an empty line.\<close>

definition block ::
  "(pystr list \<Rightarrow> item list \<Rightarrow> py_error + pystr list) \<Rightarrow> pystr \<Rightarrow> item list \<Rightarrow>
     pystr list \<Rightarrow> py_error + pystr list" where
  "block loop heading items lines =
     (if items \<noteq> []
      then (case loop (lines @ [heading]) items of
              Inl e \<Rightarrow> Inl e
            | Inr lines' \<Rightarrow> Inr (lines' @ [[]]))
      else Inr lines)"

definition report_lines :: "analysis \<Rightarrow> py_error + pystr list" where
  "report_lines a =
     (let items = (case items_found a of None \<Rightarrow> [] | Some xs \<Rightarrow> xs);
          score = (case health_score a of None \<Rightarrow> 5 | Some s \<Rightarrow> s);
          encouragement_text =
            (case encouragement a of
               None \<Rightarrow> lit ''Keep making healthy choices!'' | Some e \<Rightarrow> e);
          good_items = filter (has_category (lit ''GOOD'')) items;
          okay_items = filter (has_category (lit ''OKAY'')) items;
          reconsider_items = filter (has_category (lit ''RECONSIDER'')) items
      in case score_line score of
           Inl e \<Rightarrow> Inl e
         | Inr bar \<Rightarrow>
        (case block append_items good_heading good_items
                [report_title, report_rule, bar, []] of
           Inl e \<Rightarrow> Inl e
         | Inr lines1 \<Rightarrow>
        (case block append_items okay_heading okay_items lines1 of
           Inl e \<Rightarrow> Inl e
         | Inr lines2 \<Rightarrow>
        (case block append_reconsider reconsider_heading reconsider_items lines2 of
           Inl e \<Rightarrow> Inl e
         | Inr lines3 \<Rightarrow>
             Inr (lines3 @ [[0x1F49A] @ lit '' '' @ encouragement_text, [], invitation])))))"

definition format_cart_analysis :: "analysis \<Rightarrow> py_error + pystr" where
  "format_cart_analysis a =
     (if error a \<noteq> None then Inr apology
      else (case report_lines a of
              Inl e \<Rightarrow> Inl e
            | Inr lines \<Rightarrow> Inr (py_join [0x0A] lines)))"

section \<open>The bot's messages\<close>

definition welcome_msg :: "pystr \<Rightarrow> pystr" where
  "welcome_msg nm =
     [0x1F44B] @ lit '' *Welcome to Cart Check, '' @ nm @ lit ''!*\<newline>'' @
     lit ''\<newline>'' @
     lit ''I help you make healthier grocery choices by checking your cart before checkout.\<newline>'' @
     lit ''\<newline>'' @
     lit ''Let's set up your profile (takes 30 seconds):\<newline>'' @
     lit ''\<newline>'' @
     lit ''*What are your health goals?*\<newline>'' @
     lit ''Reply with the numbers (e.g., '' @ [0x22] @ lit ''1, 2'' @ [0x22] @ lit ''):\<newline>'' @
     lit ''\<newline>'' @
     lit ''1'' @ [0xFE0F, 0x20E3] @ lit '' Lower cholesterol\<newline>'' @
     lit ''2'' @ [0xFE0F, 0x20E3] @ lit '' Lose weight\<newline>'' @
     lit ''3'' @ [0xFE0F, 0x20E3] @ lit '' Manage diabetes\<newline>'' @
     lit ''4'' @ [0xFE0F, 0x20E3] @ lit '' Lower blood pressure\<newline>'' @
     lit ''5'' @ [0xFE0F, 0x20E3] @ lit '' Improve heart health\<newline>'' @
     lit ''6'' @ [0xFE0F, 0x20E3] @ lit '' General wellness''"

definition goals_reprompt :: pystr where
  "goals_reprompt =
     lit ''Please reply with numbers (e.g., '1, 2') to select your health goals.''"

definition restrictions_msg :: "pystr list \<Rightarrow> pystr" where
  "restrictions_msg selected_goals =
     lit ''Great! You selected: '' @ py_join (lit '', '') selected_goals @ lit ''\<newline>'' @
     lit ''\<newline>'' @
     lit ''*Now, any foods you need to avoid?*\<newline>'' @
     lit ''Reply with numbers (e.g., '' @ [0x22] @ lit ''1, 2, 3'' @ [0x22] @ lit ''):\<newline>'' @
     lit ''\<newline>'' @
     lit ''1'' @ [0xFE0F, 0x20E3] @ lit '' No salt\<newline>'' @
     lit ''2'' @ [0xFE0F, 0x20E3] @ lit '' No oil\<newline>'' @
     lit ''3'' @ [0xFE0F, 0x20E3] @ lit '' No sugar\<newline>'' @
     lit ''4'' @ [0xFE0F, 0x20E3] @ lit '' No nuts\<newline>'' @
     lit ''5'' @ [0xFE0F, 0x20E3] @ lit '' No dairy\<newline>'' @
     lit ''6'' @ [0xFE0F, 0x20E3] @ lit '' No gluten\<newline>'' @
     lit ''7'' @ [0xFE0F, 0x20E3] @ lit '' No meat\<newline>'' @
     lit ''8'' @ [0xFE0F, 0x20E3] @ lit '' No eggs\<newline>'' @
     lit ''\<newline>'' @
     lit ''Or reply '' @ [0x22] @ lit ''none'' @ [0x22] @ lit '' if no restrictions.''"

text \<open>\<^verbatim>\<open>', '.join(xs) if xs else "None"\<close>, as the ready and profile messages use it.\<close>

definition restrictions_text :: "pystr list \<Rightarrow> pystr" where
  "restrictions_text xs = (if xs \<noteq> [] then py_join (lit '', '') xs else lit ''None'')"

definition ready_msg :: "UserProfile \<Rightarrow> pystr list \<Rightarrow> pystr" where
  "ready_msg profile selected_restrictions =
     [0x2705] @ lit '' *You're all set!*\<newline>'' @
     lit ''\<newline>'' @
     lit ''*Your Profile:*\<newline>'' @
     [0x1F4CE] @ lit '' Goals: '' @ py_join (lit '', '') (health_goals profile) @ lit ''\<newline>'' @
     [0x1F6AB] @ lit '' Avoid: '' @ restrictions_text selected_restrictions @ lit ''\<newline>'' @
     lit ''\<newline>'' @
     report_rule @ lit ''\<newline>'' @
     lit ''\<newline>'' @
     lit ''*How to use Cart Check:*\<newline>'' @
     [0x1F4F8] @ lit '' Take a photo of your grocery cart\<newline>'' @
     [0x1F4E4] @ lit '' Send it to me\<newline>'' @
     [0x1F4CB] @ lit '' Get instant health feedback + swap suggestions\<newline>'' @
     lit ''\<newline>'' @
     lit ''Next time you're at the store, just send me a cart photo!\<newline>'' @
     lit ''\<newline>'' @
     [0x1F6D2] @ lit '' Happy healthy shopping! '' @ [0x1F49A]"

definition setup_first_msg :: pystr where
  "setup_first_msg =
     lit ''Let's set up your profile first! What are your health goals?\<newline>'' @
     lit ''\<newline>'' @
     lit ''Reply with numbers:\<newline>'' @
     lit ''1. Lower cholesterol\<newline>'' @
     lit ''2. Lose weight\<newline>'' @
     lit ''3. Manage diabetes\<newline>'' @
     lit ''4. Lower blood pressure\<newline>'' @
     lit ''5. Improve heart health\<newline>'' @
     lit ''6. General wellness''"

definition analyzing_msg :: pystr where
  "analyzing_msg = [0x1F50D] @ lit '' Analyzing your cart... This takes about 10 seconds.''"

definition went_wrong_msg :: pystr where
  "went_wrong_msg =
     [0x1F605] @ lit '' Something went wrong analyzing your cart. Please try again!''"

definition help_msg :: pystr where
  "help_msg =
     lit ''*Cart Check Help*\<newline>'' @
     lit ''\<newline>'' @
     [0x1F4F8] @ lit '' *Check your cart:* Send a photo of your grocery cart\<newline>'' @
     lit ''\<newline>'' @
     [0x1F504] @ lit '' *Update profile:* Type '' @ [0x22] @ lit ''reset'' @ [0x22] @ lit '' to start over\<newline>'' @
     lit ''\<newline>'' @
     [0x1F4CA] @ lit '' *Your stats:* Type '' @ [0x22] @ lit ''stats'' @ [0x22] @ lit '' to see your progress\<newline>'' @
     lit ''\<newline>'' @
     [0x1F4AC] @ lit '' *Commands:*\<newline>'' @
     [0x2022] @ lit '' '' @ [0x22] @ lit ''reset'' @ [0x22] @ lit '' - Start fresh\<newline>'' @
     [0x2022] @ lit '' '' @ [0x22] @ lit ''stats'' @ [0x22] @ lit '' - Your stats\<newline>'' @
     [0x2022] @ lit '' '' @ [0x22] @ lit ''profile'' @ [0x22] @ lit '' - View your profile\<newline>'' @
     [0x2022] @ lit '' '' @ [0x22] @ lit ''help'' @ [0x22] @ lit '' - This message''"

definition stats_msg :: "UserProfile \<Rightarrow> pystr" where
  "stats_msg profile =
     [0x1F4CA] @ lit '' *Your Cart Check Stats*\<newline>'' @
     lit ''\<newline>'' @
     [0x1F6D2] @ lit '' Carts checked: '' @ str_int (cart_checks profile) @ lit ''\<newline>'' @
     [0x1F504] @ lit '' Items reconsidered: '' @ str_int (items_swapped profile) @ lit ''\<newline>'' @
     [0x1F4C5] @ lit '' Member since: ''
       @ (if created_at profile \<noteq> [] then take 10 (created_at profile) else lit ''Today'')
       @ lit ''\<newline>'' @
     lit ''\<newline>'' @
     lit ''Keep making healthy choices! '' @ [0x1F49A]"

definition no_stats_msg :: pystr where
  "no_stats_msg = lit ''You haven't set up your profile yet. Send 'hi' to get started!''"

definition profile_msg :: "UserProfile \<Rightarrow> pystr" where
  "profile_msg profile =
     [0x1F464] @ lit '' *Your Profile*\<newline>'' @
     lit ''\<newline>'' @
     [0x1F4CE] @ lit '' Goals: '' @ py_join (lit '', '') (health_goals profile) @ lit ''\<newline>'' @
     [0x1F6AB] @ lit '' Avoid: '' @ restrictions_text (restrictions profile) @ lit ''\<newline>'' @
     lit ''\<newline>'' @
     lit ''Type '' @ [0x22] @ lit ''reset'' @ [0x22] @ lit '' to update your profile.''"

definition no_profile_msg :: pystr where
  "no_profile_msg =
     lit ''You haven't completed your profile yet. Send 'hi' to get started!''"

definition send_photo_msg :: pystr where
  "send_photo_msg =
     [0x1F4F8] @ lit '' Send me a photo of your grocery cart and I'll check it for you!\<newline>'' @
     lit ''\<newline>'' @
     lit ''Or type 'help' for more options.''"

definition bad_image_msg :: pystr where
  "bad_image_msg = lit ''I couldn't process that image. Please try again!''"

definition text_or_photo_msg :: pystr where
  "text_or_photo_msg =
     lit ''Please send me a text message or a photo of your grocery cart! '' @ [0x1F4F8]"

section \<open>Conversation handlers\<close>

text \<open>
  The two global dictionaries and the messages handed to the messaging API are the state.
  \<open>send_whatsapp_message\<close> is modelled as delivery to the list \<open>sent\<close>: the HTTP request
  is assumed to return (a status other than 200 is only logged by the source).
\<close>

record world =
  user_profiles :: "pystr \<rightharpoonup> UserProfile"
  user_states :: "pystr \<rightharpoonup> pystr"
  sent :: "(pystr \<times> pystr) list"

definition send_whatsapp_message :: "pystr \<Rightarrow> pystr \<Rightarrow> world \<Rightarrow> world" where
  "send_whatsapp_message to message w = w\<lparr>sent := sent w @ [(to, message)]\<rparr>"

definition get_user_profile :: "world \<Rightarrow> pystr \<Rightarrow> UserProfile option" where
  "get_user_profile w ph = user_profiles w ph"

definition save_user_profile :: "UserProfile \<Rightarrow> world \<Rightarrow> world" where
  "save_user_profile profile w =
     w\<lparr>user_profiles := (user_profiles w)(phone profile \<mapsto> profile)\<rparr>"

text \<open>
  A profile returned by \<open>get_user_profile\<close> is the object stored in the dictionary, so an
  assignment to one of its attributes changes the entry under the key it was looked up with.
\<close>

definition assign_in_place :: "pystr \<Rightarrow> UserProfile \<Rightarrow> world \<Rightarrow> world" where
  "assign_in_place ph profile w = w\<lparr>user_profiles := (user_profiles w)(ph \<mapsto> profile)\<rparr>"

definition set_state :: "pystr \<Rightarrow> pystr \<Rightarrow> world \<Rightarrow> world" where
  "set_state ph st w = w\<lparr>user_states := (user_states w)(ph \<mapsto> st)\<rparr>"

text \<open>\<open>now\<close> is the text of \<open>datetime.now().isoformat()\<close>.\<close>

definition handle_new_user :: "pystr \<Rightarrow> pystr \<Rightarrow> pystr \<Rightarrow> world \<Rightarrow> world" where
  "handle_new_user now ph nm w =
     (let profile = \<lparr>phone = ph, name = Some nm, health_goals = [], restrictions = [],
                      created_at = now, cart_checks = 0, items_swapped = 0\<rparr>
      in send_whatsapp_message ph (welcome_msg nm)
           (set_state ph (lit ''awaiting_goals'') (save_user_profile profile w)))"

text \<open>
  With no stored profile, the assignment \<open>profile.health_goals = ...\<close> raises
  \<open>AttributeError\<close> on \<open>None\<close>, before anything has been changed.
\<close>

definition handle_goals_response ::
  "unicode_db \<Rightarrow> pystr \<Rightarrow> pystr \<Rightarrow> world \<Rightarrow> py_error + world" where
  "handle_goals_response U ph message w =
     (let profile = get_user_profile w ph;
          numbers = parse_numbers U message;
          selected_goals = select_from HEALTH_GOALS numbers
      in if selected_goals = []
         then Inr (send_whatsapp_message ph goals_reprompt w)
         else (case profile of
                 None \<Rightarrow> Inl AttributeError
               | Some p \<Rightarrow>
                   (let p' = p\<lparr>health_goals := selected_goals\<rparr>
                    in Inr (send_whatsapp_message ph (restrictions_msg selected_goals)
                              (set_state ph (lit ''awaiting_restrictions'')
                                 (save_user_profile p' (assign_in_place ph p' w)))))))"

definition handle_restrictions_response ::
  "unicode_db \<Rightarrow> pystr \<Rightarrow> pystr \<Rightarrow> world \<Rightarrow> py_error + world" where
  "handle_restrictions_response U ph message w =
     (let profile = get_user_profile w ph;
          selected_restrictions =
            (if py_strip U (py_lower U message) = lit ''none'' then []
             else select_from RESTRICTIONS (parse_numbers U message))
      in case profile of
           None \<Rightarrow> Inl AttributeError
         | Some p \<Rightarrow>
             (let p' = p\<lparr>restrictions := selected_restrictions\<rparr>
              in Inr (send_whatsapp_message ph (ready_msg p' selected_restrictions)
                        (set_state ph (lit ''ready'')
                           (save_user_profile p' (assign_in_place ph p' w))))))"

text \<open>
  What the download of the photo and the call of the vision model come to: an exception
  (from either request, or from reading the response), or a response with its status and
  the model's text.
\<close>

datatype upstream = Raises | Response int pystr

text \<open>
  In \<open>handle_cart_photo\<close> every exception of the analysis path is caught and answered with
  the retry message: one that leaves \<open>analyze_cart_with_claude\<close>, the \<open>TypeError\<close> of
  \<open>format_cart_analysis(None)\<close>, and those of the formatter.
\<close>

definition handle_cart_photo ::
  "(pystr \<Rightarrow> py_error + analysis) \<Rightarrow> upstream \<Rightarrow> pystr \<Rightarrow> pystr \<Rightarrow> world \<Rightarrow> world" where
  "handle_cart_photo json_loads up ph media_id w =
     (case get_user_profile w ph of
        None \<Rightarrow> set_state ph (lit ''awaiting_goals'') (send_whatsapp_message ph setup_first_msg w)
      | Some p \<Rightarrow>
          if \<not> is_profile_complete p
          then set_state ph (lit ''awaiting_goals'') (send_whatsapp_message ph setup_first_msg w)
          else
            (let w1 = send_whatsapp_message ph analyzing_msg w
             in case up of
                  Raises \<Rightarrow> send_whatsapp_message ph went_wrong_msg w1
                | Response status_code content \<Rightarrow>
                    (case analyze_cart_with_claude json_loads status_code content of
                       Inl e \<Rightarrow> send_whatsapp_message ph went_wrong_msg w1
                     | Inr None \<Rightarrow> send_whatsapp_message ph went_wrong_msg w1
                     | Inr (Some a) \<Rightarrow>
                         (case format_cart_analysis a of
                            Inl e \<Rightarrow> send_whatsapp_message ph went_wrong_msg w1
                          | Inr response_msg \<Rightarrow>
                              (let w2 = send_whatsapp_message ph response_msg w1;
                                   p1 = p\<lparr>cart_checks := cart_checks p + 1\<rparr>;
                                   reconsider_count =
                                     length (filter (has_category (lit ''RECONSIDER''))
                                       (case items_found a of None \<Rightarrow> [] | Some xs \<Rightarrow> xs));
                                   p2 = p1\<lparr>items_swapped :=
                                           items_swapped p1 + int reconsider_count\<rparr>
                               in save_user_profile p2 (assign_in_place ph p2 w2))))))"

definition handle_text_message ::
  "unicode_db \<Rightarrow> pystr \<Rightarrow> pystr \<Rightarrow> pystr \<Rightarrow> pystr \<Rightarrow> world \<Rightarrow> py_error + world" where
  "handle_text_message U now ph message nm w =
     (let profile = get_user_profile w ph;
          state = (case user_states w ph of None \<Rightarrow> lit ''new'' | Some st \<Rightarrow> st);
          command = py_strip U (py_lower U message)
      in if command \<in> set [lit ''reset'', lit ''restart'', lit ''start over'', lit ''new profile'']
         then Inr (handle_new_user now ph nm
                     (w\<lparr>user_profiles := (user_profiles w)(ph := None),
                        user_states := (user_states w)(ph := None)\<rparr>))
         else if command \<in> set [lit ''help'', lit ''?'']
         then Inr (send_whatsapp_message ph help_msg w)
         else if command = lit ''stats''
         then Inr (send_whatsapp_message ph
                     (case profile of None \<Rightarrow> no_stats_msg | Some p \<Rightarrow> stats_msg p) w)
         else if command = lit ''profile''
         then Inr (send_whatsapp_message ph
                     (case profile of
                        None \<Rightarrow> no_profile_msg
                      | Some p \<Rightarrow> if is_profile_complete p then profile_msg p else no_profile_msg)
                     w)
         else if state = lit ''new'' \<or> profile = None
         then Inr (handle_new_user now ph nm w)
         else if state = lit ''awaiting_goals''
         then handle_goals_response U ph message w
         else if state = lit ''awaiting_restrictions''
         then handle_restrictions_response U ph message w
         else if state = lit ''ready''
         then Inr (send_whatsapp_message ph send_photo_msg w)
         else Inr w)"

text \<open>
  The inbound message as \<open>handle_webhook\<close> reads it from the payload: a text with its body,
  an image with its media id (if any), or another type. An exception of a handler is caught
  and logged; the handlers raise before they change anything.
\<close>

datatype inbound = Text pystr | Image "pystr option" | Other

definition handle_webhook ::
  "unicode_db \<Rightarrow> (pystr \<Rightarrow> py_error + analysis) \<Rightarrow> pystr \<Rightarrow> upstream \<Rightarrow>
     pystr \<Rightarrow> pystr \<Rightarrow> inbound \<Rightarrow> world \<Rightarrow> world" where
  "handle_webhook U json_loads now up ph nm msg w =
     (case msg of
        Text body \<Rightarrow>
          (case handle_text_message U now ph body nm w of Inl e \<Rightarrow> w | Inr w' \<Rightarrow> w')
      | Image media_id \<Rightarrow>
          (case media_id of
             None \<Rightarrow> send_whatsapp_message ph bad_image_msg w
           | Some m \<Rightarrow>
               if m = [] then send_whatsapp_message ph bad_image_msg w
               else handle_cart_photo json_loads up ph m w)
      | Other \<Rightarrow> send_whatsapp_message ph text_or_photo_msg w)"

definition initial_world :: world where
  "initial_world = \<lparr>user_profiles = Map.empty, user_states = Map.empty, sent = []\<rparr>"

section \<open>The report as the specification words it\<close>

text \<open>
  The specification of the formatter, to compare \<open>format_cart_analysis\<close> with: a header, the
  score bar (\<open>score\<close> filled glyphs, \<open>10 - score\<close> empty ones, the numeric score), one
  headed group for each category that has items (the items in their original order, a
  Reconsider item followed by its reason and its alternative when present), then the
  encouragement line and the invitation. A missing score is 5, a missing encouragement the
  generic message.
\<close>

definition spec_item_line :: "item \<Rightarrow> pystr" where
  "spec_item_line i = lit ''  '' @ [0x2022] @ lit '' '' @ the (i (lit ''name''))"

definition spec_reconsider_lines :: "item \<Rightarrow> pystr list" where
  "spec_reconsider_lines i =
     [lit ''  '' @ [0x2022] @ lit '' *'' @ the (i (lit ''name'')) @ lit ''*'']
     @ (if truthy (i (lit ''reason''))
        then [lit ''    _'' @ the (i (lit ''reason'')) @ lit ''_''] else [])
     @ (if truthy (i (lit ''alternative''))
        then [lit ''    '' @ [0x2192] @ lit '' Try: '' @ the (i (lit ''alternative''))] else [])"

definition spec_group :: "pystr \<Rightarrow> item list \<Rightarrow> pystr list \<Rightarrow> pystr list" where
  "spec_group heading items entries = (if items = [] then [] else heading # entries @ [[]])"

definition spec_score_bar :: "int \<Rightarrow> pystr" where
  "spec_score_bar score =
     lit ''Health Score: '' @ replicate (nat score) 0x2B50 @ replicate (nat (10 - score)) 0x2606
       @ lit '' ('' @ str_int score @ lit ''/10)''"

definition spec_report_lines :: "analysis \<Rightarrow> pystr list" where
  "spec_report_lines a =
     (let items = (case items_found a of None \<Rightarrow> [] | Some xs \<Rightarrow> xs);
          good = filter (has_category (lit ''GOOD'')) items;
          okay = filter (has_category (lit ''OKAY'')) items;
          reconsider = filter (has_category (lit ''RECONSIDER'')) items
      in [report_title, report_rule,
          spec_score_bar (case health_score a of None \<Rightarrow> 5 | Some s \<Rightarrow> s), []]
         @ spec_group good_heading good (map spec_item_line good)
         @ spec_group okay_heading okay (map spec_item_line okay)
         @ spec_group reconsider_heading reconsider (concat (map spec_reconsider_lines reconsider))
         @ [[0x1F49A] @ lit '' ''
              @ (case encouragement a of
                   None \<Rightarrow> lit ''Keep making healthy choices!'' | Some e \<Rightarrow> e),
            [], invitation])"

text \<open>An item that the formatter lists: its category is one of the three.\<close>

definition listed :: "item \<Rightarrow> bool" where
  "listed i =
     (has_category (lit ''GOOD'') i \<or> has_category (lit ''OKAY'') i
      \<or> has_category (lit ''RECONSIDER'') i)"

definition is_heading :: "pystr \<Rightarrow> bool" where
  "is_heading h = (h = good_heading \<or> h = okay_heading \<or> h = reconsider_heading)"

section \<open>Sample inputs\<close>

text \<open>
  Concrete values for the examples. The examples are ASCII, so the tables of \<open>sample_db\<close>
  are never consulted; \<open>no_json\<close> is a parser that rejects every text, \<open>any_json\<close> one
  that answers every text with the same dictionary, and \<open>deep_json\<close> one that meets
  nesting beyond its recursion limit.
\<close>

definition sample_db :: unicode_db where
  "sample_db = \<lparr>u_isspace = (\<lambda>c. False), u_isdigit = (\<lambda>c. False), u_lower = (\<lambda>s. s)\<rparr>"

definition no_json :: "pystr \<Rightarrow> py_error + analysis" where
  "no_json s = Inl JSONDecodeError"

definition deep_json :: "pystr \<Rightarrow> py_error + analysis" where
  "deep_json s = Inl RecursionError"

definition sample_analysis :: analysis where
  "sample_analysis =
     \<lparr>error = None, raw = None,
      items_found = Some
        [[lit ''name'' \<mapsto> lit ''Spinach'', lit ''category'' \<mapsto> lit ''GOOD''],
         [lit ''name'' \<mapsto> lit ''Rice'', lit ''category'' \<mapsto> lit ''OKAY''],
         [lit ''name'' \<mapsto> lit ''Cola'', lit ''category'' \<mapsto> lit ''RECONSIDER'',
          lit ''reason'' \<mapsto> lit ''Sugar'', lit ''alternative'' \<mapsto> lit ''Lime soda'']],
      health_score = Some 8, encouragement = Some (lit ''Nice cart!'')\<rparr>"

definition any_json :: "pystr \<Rightarrow> py_error + analysis" where
  "any_json s = Inr sample_analysis"

definition sample_phone :: pystr where
  "sample_phone = lit ''15550100''"

definition sample_now :: pystr where
  "sample_now = lit ''2025-03-01T09:30:00''"

definition sample_profile :: UserProfile where
  "sample_profile =
     \<lparr>phone = sample_phone, name = Some (lit ''Asha''), health_goals = [lit ''Lose weight''],
      restrictions = [], created_at = sample_now, cart_checks = 0, items_swapped = 0\<rparr>"


section \<open>Facts about the string functions\<close>

lemma lit_eq_iff [simp]: "lit a = lit b \<longleftrightarrow> a = b"
  unfolding lit_def using inj_of_char [where ?'a = nat] by (simp add: inj_map_eq_map)

lemma lit_Nil [simp]: "lit [] = []"
  by (simp add: lit_def)

lemma lit_below: "c \<in> set (lit s) \<Longrightarrow> c < 256"
  by (auto simp: lit_def)

lemma split_from_tokens:
  "\<not> list_ex (py_isspace U) cur \<Longrightarrow>
   list_all (\<lambda>t. t \<noteq> [] \<and> \<not> list_ex (py_isspace U) t) (split_from U cur s)"
proof (induction s arbitrary: cur)
  case Nil
  then show ?case by simp
next
  case (Cons c cs)
  show ?case
  proof (cases "py_isspace U c")
    case True
    have "list_all (\<lambda>t. t \<noteq> [] \<and> \<not> list_ex (py_isspace U) t) (split_from U [] cs)"
      by (rule Cons.IH) simp
    with True Cons.prems show ?thesis by simp
  next
    case False
    with Cons.prems have "\<not> list_ex (py_isspace U) (cur @ [c])" by simp
    from Cons.IH [OF this] False show ?thesis by simp
  qed
qed

lemma split_from_subset:
  "t \<in> set (split_from U cur s) \<Longrightarrow> set t \<subseteq> set cur \<union> set s"
proof (induction s arbitrary: cur)
  case Nil
  then show ?case by (simp split: if_splits)
next
  case (Cons c cs)
  show ?case
  proof (cases "py_isspace U c")
    case True
    with Cons.prems have "t = cur \<or> t \<in> set (split_from U [] cs)"
      by (simp split: if_splits)
    then show ?thesis using Cons.IH [of "[]"] by auto
  next
    case False
    with Cons.prems have "t \<in> set (split_from U (cur @ [c]) cs)" by simp
    from Cons.IH [OF this] show ?thesis by auto
  qed
qed

lemma py_split_tokens:
  "list_all (\<lambda>t. t \<noteq> [] \<and> \<not> list_ex (py_isspace U) t) (py_split U s)"
  unfolding py_split_def by (rule split_from_tokens) simp

lemma py_strip_id: "t \<noteq> [] \<Longrightarrow> \<not> list_ex (py_isspace U) t \<Longrightarrow> py_strip U t = t"
proof -
  assume a: "t \<noteq> []" "\<not> list_ex (py_isspace U) t"
  then have h: "\<not> py_isspace U (hd t)" and l: "\<not> py_isspace U (last t)"
    by (auto simp: list_ex_iff)
  from a h have 1: "dropWhile (py_isspace U) t = t" by (cases t) auto
  from a l have 2: "dropWhile (py_isspace U) (rev t) = rev t"
    by (cases "rev t") (auto simp: last_rev [symmetric] simp del: last_rev)
  show ?thesis by (simp add: py_strip_def 1 2)
qed

lemma no_comma_after_replace: "44 \<notin> set (py_replace 44 32 s)"
  by (auto simp: py_replace_def)

lemma parse_numbers_eq:
  "parse_numbers U message = filter (py_isdigit U) (py_split U (py_replace 44 32 message))"
proof -
  have "\<forall>t \<in> set (py_split U (py_replace 44 32 message)). py_strip U t = t"
    using py_split_tokens [of U "py_replace 44 32 message"]
    by (auto simp: list_all_iff py_strip_id)
  then have "filter (\<lambda>n. py_isdigit U (py_strip U n)) (py_split U (py_replace 44 32 message))
      = filter (py_isdigit U) (py_split U (py_replace 44 32 message))"
    by (intro filter_cong) auto
  moreover have "map (py_strip U) (filter (py_isdigit U) (py_split U (py_replace 44 32 message)))
      = filter (py_isdigit U) (py_split U (py_replace 44 32 message))"
    using \<open>\<forall>t \<in> set (py_split U (py_replace 44 32 message)). py_strip U t = t\<close>
    by (intro map_idI) auto
  ultimately show ?thesis
    unfolding parse_numbers_def by simp
qed

lemma catalog_keys_digits:
  "map_of HEALTH_GOALS t \<noteq> None \<Longrightarrow> py_isdigit U t"
  "map_of RESTRICTIONS t \<noteq> None \<Longrightarrow> py_isdigit U t"
  by (auto simp: HEALTH_GOALS_def RESTRICTIONS_def py_isdigit_def py_isdigit_char_def lit_def
      split: if_splits)

lemma select_from_map_filter:
  "select_from catalog xs = List.map_filter (map_of catalog) xs"
  by (induction xs) (auto simp: select_from_def List.map_filter_simps)

lemma map_filter_filter:
  "(\<And>x. f x \<noteq> None \<Longrightarrow> P x) \<Longrightarrow> List.map_filter f (filter P xs) = List.map_filter f xs"
  by (induction xs) (auto simp: List.map_filter_simps split: option.splits)

section \<open>Number selection\<close>

lemma selection_example:
  "select_from HEALTH_GOALS (parse_numbers U (lit ''2, 1, 2''))
     = [lit ''Lose weight'', lit ''Lower cholesterol'', lit ''Lose weight'']"
  by (simp add: select_from_def parse_numbers_def py_split_def py_replace_def py_strip_def
      py_isdigit_def py_isdigit_char_def py_isspace_def HEALTH_GOALS_def lit_def)

text \<open>
  Claim C2, as the code has it. The message is cut at commas and whitespace into non-empty
  tokens; the selection is the list of catalog labels of the tokens that are catalog codes,
  in the order of the tokens and with their repetitions (nothing is deduplicated), for the
  goals and for the restrictions alike. The message \<open>2, 1, 2\<close> selects Lose weight, Lower
  cholesterol, Lose weight.
\<close>

theorem selection_in_token_order:
  "select_from HEALTH_GOALS (parse_numbers U message)
     = List.map_filter (map_of HEALTH_GOALS) (py_split U (py_replace 44 32 message))
   \<and> select_from RESTRICTIONS (parse_numbers U message)
     = List.map_filter (map_of RESTRICTIONS) (py_split U (py_replace 44 32 message))
   \<and> list_all (\<lambda>t. t \<noteq> [] \<and> 44 \<notin> set t \<and> \<not> list_ex (py_isspace U) t)
        (py_split U (py_replace 44 32 message))
   \<and> select_from HEALTH_GOALS (parse_numbers U (lit ''2, 1, 2''))
     = [lit ''Lose weight'', lit ''Lower cholesterol'', lit ''Lose weight'']"
proof -
  have comma: "44 \<notin> set t" if "t \<in> set (py_split U (py_replace 44 32 message))" for t
    using split_from_subset [of t U "[]" "py_replace 44 32 message"] that
      no_comma_after_replace [of message]
    by (auto simp: py_split_def)
  have toks: "list_all (\<lambda>t. t \<noteq> [] \<and> 44 \<notin> set t \<and> \<not> list_ex (py_isspace U) t)
        (py_split U (py_replace 44 32 message))"
    using py_split_tokens [of U "py_replace 44 32 message"] comma
    by (auto simp: list_all_iff)
  show ?thesis
    by (simp add: parse_numbers_eq select_from_map_filter map_filter_filter catalog_keys_digits
        toks selection_example [unfolded parse_numbers_eq select_from_map_filter])
qed

theorem selection_in_token_order_witness:
  "select_from RESTRICTIONS (parse_numbers sample_db (lit ''3 3,x,9''))
     = [lit ''No sugar'', lit ''No sugar'']
   \<and> py_split sample_db (py_replace 44 32 (lit ''3 3,x,9''))
     = [lit ''3'', lit ''3'', lit ''x'', lit ''9'']"
proof -
  have toks: "py_split sample_db (py_replace 44 32 (lit ''3 3,x,9''))
     = [lit ''3'', lit ''3'', lit ''x'', lit ''9'']"
    by (simp add: py_split_def py_replace_def py_isspace_def lit_def)
  show ?thesis
    using selection_in_token_order [of sample_db "lit ''3 3,x,9''"]
    by (simp add: toks List.map_filter_simps RESTRICTIONS_def)
qed

text \<open>
  Counterexample to claim C2 as stated: for \<open>2, 1, 2\<close> the selection is not the
  deduplicated list Lose weight, Lower cholesterol.
\<close>

theorem selection_not_deduplicated:
  "select_from HEALTH_GOALS (parse_numbers sample_db (lit ''2, 1, 2''))
     \<noteq> [lit ''Lose weight'', lit ''Lower cholesterol'']"
  by (simp add: selection_example)

section \<open>Profile completeness\<close>

lemmas state_defs = send_whatsapp_message_def get_user_profile_def save_user_profile_def
  assign_in_place_def set_state_def

text \<open>
  Claim C1 at the profile the claim names. A user who answers \<open>hi\<close>, \<open>2\<close>, \<open>none\<close> ends in
  state \<open>ready\<close> with the goals Lose weight and the restrictions set to the empty list, and
  \<open>is_profile_complete\<close> is false for that profile: the next photo of this user is answered
  with the goal prompt and the state goes back to \<open>awaiting_goals\<close>.
\<close>

theorem none_restrictions_incomplete:
  "is_profile_complete sample_profile = False
   \<and> (let w = handle_webhook U json_loads now3 up3 sample_phone nm (Text (lit ''none''))
               (handle_webhook U json_loads now2 up2 sample_phone nm (Text (lit ''2''))
                 (handle_webhook U json_loads sample_now up1 sample_phone (lit ''Asha'')
                    (Text (lit ''hi'')) initial_world))
      in user_states w sample_phone = Some (lit ''ready'')
         \<and> user_profiles w sample_phone = Some sample_profile
         \<and> handle_webhook U json_loads now4 up4 sample_phone nm (Image (Some (lit ''m1''))) w
             = w\<lparr>user_states := (user_states w)(sample_phone \<mapsto> lit ''awaiting_goals''),
                 sent := sent w @ [(sample_phone, setup_first_msg)]\<rparr>)"
  by (simp add: is_profile_complete_def sample_profile_def handle_webhook_def
      handle_text_message_def handle_new_user_def handle_goals_response_def
      handle_restrictions_response_def handle_cart_photo_def
      state_defs initial_world_def Let_def
      py_lower_def py_strip_def py_isspace_def ascii_lower_def
      select_from_def parse_numbers_def py_split_def py_replace_def
      py_isdigit_def py_isdigit_char_def HEALTH_GOALS_def sample_phone_def lit_def)

section \<open>The selection steps\<close>

text \<open>
  Claim C9. When the message selects no goal, \<open>handle_goals_response\<close> returns normally,
  having sent the re-prompt and nothing else: the conversation states and the stored
  profiles are the ones it started with. That is also the whole effect of the webhook call,
  when the user is in state \<open>awaiting_goals\<close> with a stored profile and the message is
  not one of the global commands.
\<close>

theorem goals_reprompt_keeps_state:
  assumes "select_from HEALTH_GOALS (parse_numbers U message) = []"
  shows "\<exists>w'. handle_goals_response U ph message w = Inr w'
           \<and> user_states w' = user_states w
           \<and> user_profiles w' = user_profiles w
           \<and> sent w' = sent w @ [(ph, goals_reprompt)]
           \<and> (user_states w ph = Some (lit ''awaiting_goals'') \<and> user_profiles w ph \<noteq> None
                \<and> py_strip U (py_lower U message)
                    \<notin> set [lit ''reset'', lit ''restart'', lit ''start over'',
                           lit ''new profile'', lit ''help'', lit ''?'', lit ''stats'',
                           lit ''profile'']
                \<longrightarrow> handle_webhook U json_loads now up ph nm (Text message) w = w')"
  using assms
  by (auto simp: handle_goals_response_def send_whatsapp_message_def handle_webhook_def
      handle_text_message_def get_user_profile_def Let_def)

theorem goals_reprompt_keeps_state_witness:
  "select_from HEALTH_GOALS (parse_numbers sample_db (lit ''maybe 9'')) = []
   \<and> (let w = handle_new_user sample_now sample_phone (lit ''Asha'') initial_world;
          w' = handle_webhook sample_db no_json sample_now Raises sample_phone (lit ''Asha'')
                 (Text (lit ''maybe 9'')) w
      in user_states w sample_phone = Some (lit ''awaiting_goals'')
         \<and> user_states w' sample_phone = Some (lit ''awaiting_goals'')
         \<and> user_profiles w' = user_profiles w
         \<and> sent w' = sent w @ [(sample_phone, goals_reprompt)])"
proof -
  let ?w = "handle_new_user sample_now sample_phone (lit ''Asha'') initial_world"
  have h: "select_from HEALTH_GOALS (parse_numbers sample_db (lit ''maybe 9'')) = []"
    by (simp add: select_from_def parse_numbers_def py_split_def py_replace_def py_strip_def
        py_isdigit_def py_isdigit_char_def py_isspace_def HEALTH_GOALS_def lit_def)
  have s: "user_states ?w sample_phone = Some (lit ''awaiting_goals'')"
    and p: "user_profiles ?w sample_phone \<noteq> None"
    by (simp_all add: handle_new_user_def state_defs)
  have c: "py_strip sample_db (py_lower sample_db (lit ''maybe 9''))
             \<notin> set [lit ''reset'', lit ''restart'', lit ''start over'',
                    lit ''new profile'', lit ''help'', lit ''?'', lit ''stats'',
                    lit ''profile'']"
    by (simp add: py_strip_def py_lower_def py_isspace_def ascii_lower_def lit_def)
  from goals_reprompt_keeps_state [OF h, of sample_phone ?w no_json sample_now Raises
      "lit ''Asha''"] s p c
  show ?thesis
    using h by (auto simp: Let_def)
qed

text \<open>
  Claim C5. At the restrictions step, the message \<open>none\<close> (in any case, with surrounding
  whitespace) and a message that selects no restriction both store the empty restriction
  list and set the state to \<open>ready\<close>. That is also the effect of the webhook call, when
  the user is in state \<open>awaiting_restrictions\<close> and the message is not one of the global
  commands.
\<close>

theorem restrictions_step_ready:
  assumes "user_profiles w ph = Some p"
      and "py_strip U (py_lower U message) = lit ''none''
           \<or> select_from RESTRICTIONS (parse_numbers U message) = []"
  shows "\<exists>w'. handle_restrictions_response U ph message w = Inr w'
           \<and> user_states w' ph = Some (lit ''ready'')
           \<and> map_option restrictions (user_profiles w' ph) = Some []
           \<and> (user_states w ph = Some (lit ''awaiting_restrictions'')
                \<and> py_strip U (py_lower U message)
                    \<notin> set [lit ''reset'', lit ''restart'', lit ''start over'',
                           lit ''new profile'', lit ''help'', lit ''?'', lit ''stats'',
                           lit ''profile'']
                \<longrightarrow> handle_webhook U json_loads now up ph nm (Text message) w = w')"
  using assms
  by (auto simp: handle_restrictions_response_def state_defs Let_def handle_webhook_def
      handle_text_message_def)

theorem restrictions_step_ready_witness:
  "py_strip sample_db (py_lower sample_db (lit '' None '')) = lit ''none''
   \<and> (let w = initial_world\<lparr>user_profiles := [sample_phone \<mapsto> sample_profile],
                            user_states := [sample_phone \<mapsto> lit ''awaiting_restrictions'']\<rparr>;
          w' = handle_webhook sample_db no_json sample_now Raises sample_phone (lit ''Asha'')
                 (Text (lit '' None '')) w
      in user_profiles w sample_phone = Some sample_profile
         \<and> user_states w' sample_phone = Some (lit ''ready'')
         \<and> map_option restrictions (user_profiles w' sample_phone) = Some [])"
proof -
  let ?w = "initial_world\<lparr>user_profiles := [sample_phone \<mapsto> sample_profile],
                            user_states := [sample_phone \<mapsto> lit ''awaiting_restrictions'']\<rparr>"
  have h: "py_strip sample_db (py_lower sample_db (lit '' None '')) = lit ''none''"
    by (simp add: py_strip_def py_lower_def py_isspace_def ascii_lower_def lit_def)
  have p: "user_profiles ?w sample_phone = Some sample_profile"
    and s: "user_states ?w sample_phone = Some (lit ''awaiting_restrictions'')"
    by simp_all
  have c: "py_strip sample_db (py_lower sample_db (lit '' None ''))
             \<notin> set [lit ''reset'', lit ''restart'', lit ''start over'',
                    lit ''new profile'', lit ''help'', lit ''?'', lit ''stats'',
                    lit ''profile'']"
    unfolding h by simp
  from restrictions_step_ready [OF p disjI1 [OF h], of no_json sample_now Raises
      "lit ''Asha''"] s c
  show ?thesis
    using h p by (auto simp: Let_def)
qed

text \<open>
  The dispatcher hands a message to a selection step only when it is none of the global
  commands and a profile is stored.
\<close>

lemma dispatch_to_steps:
  assumes "user_profiles w ph = Some p"
    and "py_strip U (py_lower U message)
           \<notin> set [lit ''reset'', lit ''restart'', lit ''start over'', lit ''new profile'',
                  lit ''help'', lit ''?'', lit ''stats'', lit ''profile'']"
  shows "user_states w ph = Some (lit ''awaiting_goals'') \<Longrightarrow>
           handle_text_message U now ph message nm w = handle_goals_response U ph message w"
    and "user_states w ph = Some (lit ''awaiting_restrictions'') \<Longrightarrow>
           handle_text_message U now ph message nm w
             = handle_restrictions_response U ph message w"
  using assms by (auto simp: handle_text_message_def get_user_profile_def Let_def)

section \<open>The first message of a new user\<close>

text \<open>
  Claim C3, as the code has it. For a user with no stored conversation state: a text message
  other than the commands \<open>help\<close>, \<open>?\<close>, \<open>stats\<close> and \<open>profile\<close> sets the state to
  \<open>awaiting_goals\<close> and stores a fresh profile with empty goals and restrictions; those
  four commands are answered without any change to the states or the profiles; a photo from
  a user with no stored profile sets the state to \<open>awaiting_goals\<close> and sends the goal
  prompt, and stores no profile.
\<close>

theorem new_user_first_message:
  assumes "user_states w ph = None"
  shows "(py_strip U (py_lower U body)
            \<notin> set [lit ''help'', lit ''?'', lit ''stats'', lit ''profile''] \<longrightarrow>
          (let w' = handle_webhook U json_loads now up ph nm (Text body) w
           in user_states w' ph = Some (lit ''awaiting_goals'')
              \<and> user_profiles w' ph
                  = Some \<lparr>phone = ph, name = Some nm, health_goals = [], restrictions = [],
                          created_at = now, cart_checks = 0, items_swapped = 0\<rparr>))
       \<and> (py_strip U (py_lower U body)
            \<in> set [lit ''help'', lit ''?'', lit ''stats'', lit ''profile''] \<longrightarrow>
          (let w' = handle_webhook U json_loads now up ph nm (Text body) w
           in user_states w' = user_states w \<and> user_profiles w' = user_profiles w))
       \<and> (user_profiles w ph = None \<and> media_id \<noteq> [] \<longrightarrow>
          (let w' = handle_webhook U json_loads now up ph nm (Image (Some media_id)) w
           in user_states w' ph = Some (lit ''awaiting_goals'')
              \<and> user_profiles w' = user_profiles w
              \<and> sent w' = sent w @ [(ph, setup_first_msg)]))"
  using assms
  by (auto simp: handle_webhook_def handle_text_message_def handle_new_user_def
      handle_cart_photo_def state_defs Let_def)

theorem new_user_first_message_witness:
  "user_states initial_world sample_phone = None
   \<and> py_strip sample_db (py_lower sample_db (lit ''Hello!''))
        \<notin> set [lit ''help'', lit ''?'', lit ''stats'', lit ''profile'']
   \<and> (let w' = handle_webhook sample_db no_json sample_now Raises sample_phone (lit ''Asha'')
                 (Text (lit ''Hello!'')) initial_world
      in user_states w' sample_phone = Some (lit ''awaiting_goals'')
         \<and> map_option health_goals (user_profiles w' sample_phone) = Some []
         \<and> map_option restrictions (user_profiles w' sample_phone) = Some [])
   \<and> user_profiles initial_world sample_phone = None \<and> lit ''m1'' \<noteq> []
   \<and> (let w' = handle_webhook sample_db no_json sample_now Raises sample_phone (lit ''Asha'')
                 (Image (Some (lit ''m1''))) initial_world
      in user_states w' sample_phone = Some (lit ''awaiting_goals'')
         \<and> user_profiles w' sample_phone = None)"
proof -
  have s: "user_states initial_world sample_phone = None"
    by (simp add: initial_world_def)
  have p: "user_profiles initial_world sample_phone = None"
    by (simp add: initial_world_def)
  have c: "py_strip sample_db (py_lower sample_db (lit ''Hello!''))
        \<notin> set [lit ''help'', lit ''?'', lit ''stats'', lit ''profile'']"
    by (simp add: py_strip_def py_lower_def py_isspace_def ascii_lower_def lit_def)
  have m: "lit ''m1'' \<noteq> []" by (simp add: lit_def)
  show ?thesis
    using s p c m
      new_user_first_message [OF s, of sample_db "lit ''Hello!''" no_json sample_now Raises
        "lit ''Asha''" "lit ''m1''"]
    by (simp add: Let_def)
qed

text \<open>
  Counterexample to claim C3 as stated: after the text \<open>help\<close> a new user still has no
  conversation state, and after a photo a new user has no profile.
\<close>

theorem new_user_not_always_onboarded:
  "user_states initial_world sample_phone = None
   \<and> user_states
       (handle_webhook sample_db no_json sample_now Raises sample_phone (lit ''Asha'')
          (Text (lit ''help'')) initial_world) sample_phone = None
   \<and> user_profiles
       (handle_webhook sample_db no_json sample_now Raises sample_phone (lit ''Asha'')
          (Image (Some (lit ''m1''))) initial_world) sample_phone = None"
  by (simp add: handle_webhook_def handle_text_message_def handle_cart_photo_def state_defs
      initial_world_def Let_def py_strip_def py_lower_def py_isspace_def ascii_lower_def lit_def)

section \<open>Parsing the model's response\<close>

lemma py_find_absent: "c \<notin> set s \<Longrightarrow> py_find s c = -1"
  by (induction s) (auto simp: Let_def)

lemma py_find_first: "c \<notin> set pre \<Longrightarrow> py_find (pre @ c # rest) c = int (length pre)"
  by (induction pre) (auto simp: Let_def)

lemma py_rfind_last: "c \<notin> set post \<Longrightarrow> py_rfind (xs @ c # post) c = int (length xs)"
proof -
  assume "c \<notin> set post"
  then have "py_find (rev post @ c # rev xs) c = int (length post)"
    using py_find_first [of c "rev post" "rev xs"] by simp
  then show ?thesis by (simp add: py_rfind_def Let_def)
qed

lemma py_slice_middle:
  "py_slice (pre @ mid @ post) (int (length pre)) (int (length pre + length mid)) = mid"
  by (simp add: py_slice_def slice_bound_def Let_def)

lemma analyze_braces:
  assumes "0x7B \<notin> set pre" and "0x7D \<notin> set post"
  shows "analyze_cart_with_claude json_loads 200 (pre @ [0x7B] @ mid @ [0x7D] @ post)
           = (case json_loads ([0x7B] @ mid @ [0x7D]) of
                Inr parsed \<Rightarrow> Inr (Some parsed)
              | Inl e \<Rightarrow>
                  if e = JSONDecodeError \<or> e = ValueError
                  then Inr (Some (error_indicator (pre @ [0x7B] @ mid @ [0x7D] @ post)))
                  else Inl e)"
proof -
  let ?c = "pre @ [0x7B] @ mid @ [0x7D] @ post"
  have f: "py_find ?c 0x7B = int (length pre)"
    using py_find_first [OF assms(1), of "mid @ [0x7D] @ post"] by simp
  have r: "py_rfind ?c 0x7D = int (length pre + 1 + length mid)"
    using py_rfind_last [OF assms(2), of "pre @ [0x7B] @ mid"] by simp
  have "py_slice (pre @ ([0x7B] @ mid @ [0x7D]) @ post) (int (length pre))
          (int (length pre + length ([0x7B] @ mid @ [0x7D]))) = [0x7B] @ mid @ [0x7D]"
    by (rule py_slice_middle)
  then have s: "py_slice ?c (int (length pre)) (int (length pre + 1 + length mid) + 1)
          = [0x7B] @ mid @ [0x7D]"
    by (simp add: add.commute add.left_commute)
  show ?thesis
    unfolding analyze_cart_with_claude_def Let_def f r s by simp
qed

lemma analyze_outcomes:
  "(\<exists>json_str parsed. json_loads json_str = Inr parsed
       \<and> analyze_cart_with_claude json_loads 200 content = Inr (Some parsed))
   \<or> (\<exists>json_str e. json_loads json_str = Inl e \<and> (e = JSONDecodeError \<or> e = ValueError)
       \<and> analyze_cart_with_claude json_loads 200 content = Inr (Some (error_indicator content)))
   \<or> (\<exists>json_str e. json_loads json_str = Inl e \<and> e \<noteq> JSONDecodeError \<and> e \<noteq> ValueError
       \<and> analyze_cart_with_claude json_loads 200 content = Inl e)"
proof (cases "json_loads (py_slice content (py_find content 0x7B) (py_rfind content 0x7D + 1))")
  case (Inl e)
  then show ?thesis
    by (cases "e = JSONDecodeError \<or> e = ValueError")
       (auto simp: analyze_cart_with_claude_def Let_def)
next
  case (Inr parsed)
  then show ?thesis
    by (auto simp: analyze_cart_with_claude_def Let_def)
qed

text \<open>
  Claim C6, as the code has it. With a status other than 200 the result is \<open>None\<close>. With
  status 200 and a text whose first \<open>{\<close> comes before its last \<open>}\<close>, the text from the one
  to the other (both included) is what is parsed, whatever surrounds it: the result is the
  parsed dictionary, or the error indicator carrying the whole text when the parser raises
  \<open>JSONDecodeError\<close> or another \<open>ValueError\<close>, and any other exception of the parser
  leaves the function. For every text, an exception leaves the function only if the parser
  raised it and it is not a \<open>ValueError\<close>; with a parser that raises nothing else the
  result is always the parsed dictionary or the error indicator.
\<close>

theorem analyze_response_cases:
  "(status_code \<noteq> 200 \<longrightarrow>
      analyze_cart_with_claude json_loads status_code content = Inr None)
   \<and> (0x7B \<notin> set pre \<and> 0x7D \<notin> set post \<longrightarrow>
        analyze_cart_with_claude json_loads 200 (pre @ [0x7B] @ mid @ [0x7D] @ post)
          = (case json_loads ([0x7B] @ mid @ [0x7D]) of
               Inr parsed \<Rightarrow> Inr (Some parsed)
             | Inl e \<Rightarrow>
                 if e = JSONDecodeError \<or> e = ValueError
                 then Inr (Some (error_indicator (pre @ [0x7B] @ mid @ [0x7D] @ post)))
                 else Inl e))
   \<and> (analyze_cart_with_claude json_loads 200 content = Inl e \<longrightarrow>
        e \<noteq> JSONDecodeError \<and> e \<noteq> ValueError \<and> (\<exists>json_str. json_loads json_str = Inl e))
   \<and> ((\<forall>json_str e'. json_loads json_str = Inl e' \<longrightarrow>
                        e' = JSONDecodeError \<or> e' = ValueError) \<longrightarrow>
        analyze_cart_with_claude json_loads 200 content = Inr (Some (error_indicator content))
        \<or> (\<exists>json_str parsed. json_loads json_str = Inr parsed
              \<and> analyze_cart_with_claude json_loads 200 content = Inr (Some parsed)))"
proof -
  have 3: "analyze_cart_with_claude json_loads 200 content = Inl e \<longrightarrow>
        e \<noteq> JSONDecodeError \<and> e \<noteq> ValueError \<and> (\<exists>json_str. json_loads json_str = Inl e)"
    using analyze_outcomes [of json_loads content] by auto
  have 4: "(\<forall>json_str e'. json_loads json_str = Inl e' \<longrightarrow>
                        e' = JSONDecodeError \<or> e' = ValueError) \<longrightarrow>
        analyze_cart_with_claude json_loads 200 content = Inr (Some (error_indicator content))
        \<or> (\<exists>json_str parsed. json_loads json_str = Inr parsed
              \<and> analyze_cart_with_claude json_loads 200 content = Inr (Some parsed))"
  proof
    assume "\<forall>json_str e'. json_loads json_str = Inl e' \<longrightarrow>
                        e' = JSONDecodeError \<or> e' = ValueError"
    then show "analyze_cart_with_claude json_loads 200 content
                 = Inr (Some (error_indicator content))
        \<or> (\<exists>json_str parsed. json_loads json_str = Inr parsed
              \<and> analyze_cart_with_claude json_loads 200 content = Inr (Some parsed))"
      using analyze_outcomes [of json_loads content] by blast
  qed
  have 1: "status_code \<noteq> 200 \<longrightarrow>
      analyze_cart_with_claude json_loads status_code content = Inr None"
    by (simp add: analyze_cart_with_claude_def)
  from 1 3 4 analyze_braces [of pre post json_loads mid] show ?thesis by blast
qed

theorem analyze_response_cases_witness:
  "(500::int) \<noteq> 200 \<and> analyze_cart_with_claude any_json 500 (lit ''overloaded'') = Inr None
   \<and> 0x7B \<notin> set (lit ''Sure! '') \<and> 0x7D \<notin> set (lit '' Enjoy.'')
   \<and> analyze_cart_with_claude any_json 200 (lit ''Sure! {x} Enjoy.'')
        = Inr (Some sample_analysis)
   \<and> analyze_cart_with_claude no_json 200 (lit ''Sure! {x} Enjoy.'')
        = Inr (Some (error_indicator (lit ''Sure! {x} Enjoy.'')))
   \<and> analyze_cart_with_claude deep_json 200 (lit ''Sure! {x} Enjoy.'') = Inl RecursionError"
proof -
  have h: "0x7B \<notin> set (lit ''Sure! '') \<and> 0x7D \<notin> set (lit '' Enjoy.'')"
    by (simp add: lit_def)
  have c: "lit ''Sure! {x} Enjoy.'' = lit ''Sure! '' @ [0x7B] @ lit ''x'' @ [0x7D] @ lit '' Enjoy.''"
    by (simp add: lit_def)
  note t = analyze_response_cases [where status_code = 500 and content = "lit ''overloaded''"
      and pre = "lit ''Sure! ''" and post = "lit '' Enjoy.''" and mid = "lit ''x''"
      and e = RecursionError]
  show ?thesis
    using h t [where json_loads = any_json, THEN conjunct1]
      t [where json_loads = any_json, THEN conjunct2, THEN conjunct1]
      t [where json_loads = no_json, THEN conjunct2, THEN conjunct1]
      t [where json_loads = deep_json, THEN conjunct2, THEN conjunct1]
    unfolding c by (simp add: any_json_def no_json_def deep_json_def)
qed

text \<open>
  Counterexample to claim C6 as stated: when the upstream call fails with status 500 the
  result is \<open>None\<close>, not an error indicator carrying the text; and when the parser meets
  nesting beyond its recursion limit, its \<open>RecursionError\<close> is propagated.
\<close>

theorem upstream_failure_returns_none:
  "analyze_cart_with_claude no_json 500 (lit ''overloaded'') = Inr None
   \<and> analyze_cart_with_claude no_json 500 (lit ''overloaded'')
        \<noteq> Inr (Some (error_indicator (lit ''overloaded'')))
   \<and> analyze_cart_with_claude deep_json 200 (lit ''{}'') = Inl RecursionError"
  by (simp add: analyze_cart_with_claude_def deep_json_def Let_def)


section \<open>Formatting an error indicator\<close>

lemma apology_chars: "c \<in> set apology \<Longrightarrow> c = 0x1F914 \<or> c < 256"
  by (auto simp: apology_def dest: lit_below)

text \<open>
  Claim C7. For every analysis that has the key \<open>error\<close>, whatever else it holds, the
  formatter returns exactly the apology. The apology contains neither score glyph and none
  of the three category headings.
\<close>

theorem error_indicator_gets_apology:
  assumes "error a \<noteq> None"
  shows "format_cart_analysis a = Inr apology
         \<and> 0x2B50 \<notin> set apology \<and> 0x2606 \<notin> set apology
         \<and> \<not> sublist good_heading apology
         \<and> \<not> sublist okay_heading apology
         \<and> \<not> sublist reconsider_heading apology"
proof -
  have stars: "0x2B50 \<notin> set apology" "0x2606 \<notin> set apology"
    using apology_chars by fastforce+
  have "0x2705 \<notin> set apology" "0x1F44D \<notin> set apology" "0x1F504 \<notin> set apology"
    using apology_chars by fastforce+
  moreover have "0x2705 \<in> set good_heading" "0x1F44D \<in> set okay_heading"
    "0x1F504 \<in> set reconsider_heading"
    by (simp_all add: good_heading_def okay_heading_def reconsider_heading_def)
  ultimately have "\<not> sublist good_heading apology" "\<not> sublist okay_heading apology"
    "\<not> sublist reconsider_heading apology"
    using set_mono_sublist by blast+
  with assms stars show ?thesis by (simp add: format_cart_analysis_def)
qed

theorem error_indicator_gets_apology_witness:
  "error (error_indicator (lit ''no json here'')) \<noteq> None
   \<and> format_cart_analysis (error_indicator (lit ''no json here'')) = Inr apology"
proof -
  have h: "error (error_indicator (lit ''no json here'')) \<noteq> None"
    by (simp add: error_indicator_def)
  show ?thesis using h error_indicator_gets_apology [OF h] by simp
qed

section \<open>Formatting a report\<close>

lemma py_repeat_single: "fits_index n \<Longrightarrow> py_repeat [c] n = Inr (replicate (nat n) c)"
  by (auto simp: py_repeat_def fits_index_def)

lemma py_repeat_overflow: "\<not> fits_index n \<Longrightarrow> py_repeat s n = Inl OverflowError"
  by (simp add: py_repeat_def)

lemma score_line_spec:
  "fits_index s \<Longrightarrow> fits_index (10 - s) \<Longrightarrow> score_line s = Inr (spec_score_bar s)"
  by (simp add: score_line_def spec_score_bar_def py_repeat_single)

lemma score_line_overflow:
  "\<not> fits_index s \<or> \<not> fits_index (10 - s) \<Longrightarrow> score_line s = Inl OverflowError"
  by (cases "fits_index s")
     (auto simp: score_line_def py_repeat_single py_repeat_overflow)

lemma append_items_spec:
  "list_all (\<lambda>i. i (lit ''name'') \<noteq> None) xs \<Longrightarrow>
   append_items lines xs = Inr (lines @ map spec_item_line xs)"
  by (induction xs arbitrary: lines) (auto simp: spec_item_line_def)

lemma append_reconsider_spec:
  "list_all (\<lambda>i. i (lit ''name'') \<noteq> None) xs \<Longrightarrow>
   append_reconsider lines xs = Inr (lines @ concat (map spec_reconsider_lines xs))"
  by (induction xs arbitrary: lines) (auto simp: spec_reconsider_lines_def Let_def)

lemma block_items_spec:
  "list_all (\<lambda>i. i (lit ''name'') \<noteq> None) xs \<Longrightarrow>
   block append_items heading xs lines
     = Inr (lines @ spec_group heading xs (map spec_item_line xs))"
  by (simp add: block_def spec_group_def append_items_spec)

lemma block_reconsider_spec:
  "list_all (\<lambda>i. i (lit ''name'') \<noteq> None) xs \<Longrightarrow>
   block append_reconsider heading xs lines
     = Inr (lines @ spec_group heading xs (concat (map spec_reconsider_lines xs)))"
  by (simp add: block_def spec_group_def append_reconsider_spec)

lemma named_filter:
  assumes "list_all (\<lambda>i. listed i \<longrightarrow> i (lit ''name'') \<noteq> None) xs"
  shows "list_all (\<lambda>i. i (lit ''name'') \<noteq> None) (filter (has_category (lit ''GOOD'')) xs)"
    and "list_all (\<lambda>i. i (lit ''name'') \<noteq> None) (filter (has_category (lit ''OKAY'')) xs)"
    and "list_all (\<lambda>i. i (lit ''name'') \<noteq> None) (filter (has_category (lit ''RECONSIDER'')) xs)"
  using assms by (auto simp: list_all_iff listed_def)

lemma report_lines_spec:
  assumes "list_all (\<lambda>i. listed i \<longrightarrow> i (lit ''name'') \<noteq> None)
             (case items_found a of None \<Rightarrow> [] | Some xs \<Rightarrow> xs)"
    and "fits_index (case health_score a of None \<Rightarrow> 5 | Some s \<Rightarrow> s)"
    and "fits_index (10 - (case health_score a of None \<Rightarrow> 5 | Some s \<Rightarrow> s))"
  shows "report_lines a = Inr (spec_report_lines a)"
proof -
  define items where "items = (case items_found a of None \<Rightarrow> [] | Some xs \<Rightarrow> xs)"
  note named = named_filter [OF assms(1), folded items_def]
  note bar = score_line_spec [OF assms(2,3)]
  have g: "block append_items good_heading (filter (has_category (lit ''GOOD'')) items) lines
      = Inr (lines @ spec_group good_heading (filter (has_category (lit ''GOOD'')) items)
               (map spec_item_line (filter (has_category (lit ''GOOD'')) items)))" for lines
    by (rule block_items_spec [OF named(1)])
  have k: "block append_items okay_heading (filter (has_category (lit ''OKAY'')) items) lines
      = Inr (lines @ spec_group okay_heading (filter (has_category (lit ''OKAY'')) items)
               (map spec_item_line (filter (has_category (lit ''OKAY'')) items)))" for lines
    by (rule block_items_spec [OF named(2)])
  have r: "block append_reconsider reconsider_heading
        (filter (has_category (lit ''RECONSIDER'')) items) lines
      = Inr (lines @ spec_group reconsider_heading (filter (has_category (lit ''RECONSIDER'')) items)
               (concat (map spec_reconsider_lines
                  (filter (has_category (lit ''RECONSIDER'')) items))))" for lines
    by (rule block_reconsider_spec [OF named(3)])
  show ?thesis
    unfolding report_lines_def spec_report_lines_def Let_def items_def [symmetric]
    by (simp only: bar g k r sum.case append_assoc)
qed

lemma neq_by_hd: "hd x \<noteq> hd y \<Longrightarrow> x \<noteq> y"
  by auto

lemma heading_hd:
  "hd good_heading = 0x2705" "hd okay_heading = 0x1F44D" "hd reconsider_heading = 0x1F504"
  "good_heading \<noteq> []" "okay_heading \<noteq> []" "reconsider_heading \<noteq> []"
  by (simp_all add: good_heading_def okay_heading_def reconsider_heading_def)

lemma line_hd:
  "hd report_title = 0x1F6D2" "hd report_rule = 0x2501" "hd (spec_score_bar s) = 72"
  "hd invitation = 95" "hd ([0x1F49A] @ rest) = 0x1F49A"
  by (simp_all add: report_title_def report_rule_def spec_score_bar_def invitation_def lit_def)

lemma item_line_hd: "hd (spec_item_line i) = 32"
  by (simp add: spec_item_line_def lit_def)

lemma reconsider_lines_hd: "x \<in> set (spec_reconsider_lines i) \<Longrightarrow> hd x = 32"
  by (auto simp: spec_reconsider_lines_def lit_def split: if_splits)

lemma is_heading_hd: "is_heading h \<Longrightarrow> hd h \<in> {0x2705, 0x1F44D, 0x1F504} \<and> h \<noteq> []"
  by (auto simp: is_heading_def heading_hd)

lemma count_entries:
  assumes "is_heading h"
  shows "count_list (map spec_item_line xs) h = 0"
    and "count_list (concat (map spec_reconsider_lines xs)) h = 0"
proof -
  from is_heading_hd [OF assms] have "hd h \<noteq> 32" by auto
  then have "h \<notin> set (map spec_item_line xs)"
    using item_line_hd by auto
  then show "count_list (map spec_item_line xs) h = 0" by (rule count_notin)
  from \<open>hd h \<noteq> 32\<close> have "h \<notin> set (concat (map spec_reconsider_lines xs))"
    using reconsider_lines_hd by auto
  then show "count_list (concat (map spec_reconsider_lines xs)) h = 0" by (rule count_notin)
qed

lemma count_group:
  assumes "is_heading h" and "count_list entries h = 0"
  shows "count_list (spec_group h' xs entries) h = (if xs \<noteq> [] \<and> h' = h then 1 else 0)"
  using assms is_heading_hd [OF assms(1)] by (auto simp: spec_group_def)

lemma headings_distinct:
  "good_heading \<noteq> okay_heading" "good_heading \<noteq> reconsider_heading"
  "okay_heading \<noteq> reconsider_heading"
  by (rule neq_by_hd, simp add: heading_hd)+

lemma count_fixed:
  assumes "is_heading h"
  shows "count_list [report_title, report_rule, spec_score_bar s, []] h = 0"
    and "count_list [[0x1F49A] @ rest, [], invitation] h = 0"
proof -
  from is_heading_hd [OF assms] have hd: "hd h \<in> {0x2705, 0x1F44D, 0x1F504}" and ne: "h \<noteq> []"
    by auto
  have fixed: "report_title \<noteq> h" "report_rule \<noteq> h" "spec_score_bar s \<noteq> h" "[] \<noteq> h"
    "invitation \<noteq> h" "[0x1F49A] @ rest \<noteq> h"
    using hd ne by (auto intro!: neq_by_hd simp: line_hd simp del: append.simps)
  show "count_list [report_title, report_rule, spec_score_bar s, []] h = 0"
    using fixed by simp
  show "count_list [[0x1F49A] @ rest, [], invitation] h = 0"
    using fixed by (simp del: append.simps)
qed

lemma count_headings:
  assumes "is_heading h"
  shows "count_list (spec_report_lines a) h
     = (if filter (has_category (lit ''GOOD''))
            (case items_found a of None \<Rightarrow> [] | Some xs \<Rightarrow> xs) \<noteq> [] \<and> good_heading = h
        then 1 else 0)
     + ((if filter (has_category (lit ''OKAY''))
            (case items_found a of None \<Rightarrow> [] | Some xs \<Rightarrow> xs) \<noteq> [] \<and> okay_heading = h
         then 1 else 0)
     + (if filter (has_category (lit ''RECONSIDER''))
            (case items_found a of None \<Rightarrow> [] | Some xs \<Rightarrow> xs) \<noteq> [] \<and> reconsider_heading = h
        then 1 else 0))"
  unfolding spec_report_lines_def Let_def
  by (simp only: count_list_append count_group [OF assms count_entries(1) [OF assms]]
      count_group [OF assms count_entries(2) [OF assms]] count_fixed [OF assms]
      add_0 add_0_right)


text \<open>
  Claim C8. For every analysis without the key \<open>error\<close> in which each listed item has a
  name and the score is one that string repetition accepts (every score from 1 to 10 is),
  the formatter returns the lines of the specification joined by newlines: the score
  bar with its filled and empty glyphs and the numeric score, the three groups in the
  original order of their items with the sub-lines of the Reconsider items, the
  encouragement line and the invitation last, and the defaults 5 and the generic
  encouragement for missing keys. Each category heading is a line of the report exactly once
  when its group has an item and not at all when it has none. (A reason or an alternative
  counts as present when it is a non-empty string.)
\<close>

theorem report_matches_specification:
  assumes "error a = None"
      and "list_all (\<lambda>i. listed i \<longrightarrow> i (lit ''name'') \<noteq> None)
             (case items_found a of None \<Rightarrow> [] | Some xs \<Rightarrow> xs)"
      and "fits_index (case health_score a of None \<Rightarrow> 5 | Some s \<Rightarrow> s)
           \<and> fits_index (10 - (case health_score a of None \<Rightarrow> 5 | Some s \<Rightarrow> s))"
  shows "format_cart_analysis a = Inr (py_join [0x0A] (spec_report_lines a))
         \<and> count_list (spec_report_lines a) good_heading
             = (if filter (has_category (lit ''GOOD''))
                     (case items_found a of None \<Rightarrow> [] | Some xs \<Rightarrow> xs) = [] then 0 else 1)
         \<and> count_list (spec_report_lines a) okay_heading
             = (if filter (has_category (lit ''OKAY''))
                     (case items_found a of None \<Rightarrow> [] | Some xs \<Rightarrow> xs) = [] then 0 else 1)
         \<and> count_list (spec_report_lines a) reconsider_heading
             = (if filter (has_category (lit ''RECONSIDER''))
                     (case items_found a of None \<Rightarrow> [] | Some xs \<Rightarrow> xs) = [] then 0 else 1)"
proof -
  have f: "format_cart_analysis a = Inr (py_join [0x0A] (spec_report_lines a))"
    using assms(1,3) by (simp add: format_cart_analysis_def report_lines_spec [OF assms(2)])
  have h: "is_heading good_heading" "is_heading okay_heading" "is_heading reconsider_heading"
    by (simp_all add: is_heading_def)
  note d = headings_distinct headings_distinct [symmetric]
  show ?thesis
    by (simp add: f count_headings [OF h(1)] count_headings [OF h(2)] count_headings [OF h(3)] d)
qed

lemma sample_lines:
  "spec_report_lines sample_analysis =
     [report_title, report_rule,
      lit ''Health Score: '' @ replicate 8 0x2B50 @ replicate 2 0x2606 @ lit '' (8/10)'',
      [],
      good_heading, lit ''  '' @ [0x2022] @ lit '' Spinach'', [],
      okay_heading, lit ''  '' @ [0x2022] @ lit '' Rice'', [],
      reconsider_heading, lit ''  '' @ [0x2022] @ lit '' *Cola*'', lit ''    _Sugar_'',
      lit ''    '' @ [0x2192] @ lit '' Try: Lime soda'', [],
      [0x1F49A] @ lit '' Nice cart!'', [], invitation]"
  by (simp add: spec_report_lines_def sample_analysis_def has_category_def spec_group_def
      spec_item_line_def spec_reconsider_lines_def truthy_def spec_score_bar_def str_int_def
      digits.simps [of 8] lit_def)

theorem report_matches_specification_witness:
  "error sample_analysis = None
   \<and> format_cart_analysis sample_analysis = Inr (py_join [0x0A]
       [report_title, report_rule,
        lit ''Health Score: '' @ replicate 8 0x2B50 @ replicate 2 0x2606 @ lit '' (8/10)'',
        [],
        good_heading, lit ''  '' @ [0x2022] @ lit '' Spinach'', [],
        okay_heading, lit ''  '' @ [0x2022] @ lit '' Rice'', [],
        reconsider_heading, lit ''  '' @ [0x2022] @ lit '' *Cola*'', lit ''    _Sugar_'',
        lit ''    '' @ [0x2192] @ lit '' Try: Lime soda'', [],
        [0x1F49A] @ lit '' Nice cart!'', [], invitation])
   \<and> count_list (spec_report_lines sample_analysis) good_heading = 1"
proof -
  have e: "error sample_analysis = None"
    by (simp add: sample_analysis_def)
  have n: "list_all (\<lambda>i. listed i \<longrightarrow> i (lit ''name'') \<noteq> None)
             (case items_found sample_analysis of None \<Rightarrow> [] | Some xs \<Rightarrow> xs)"
    by (simp add: sample_analysis_def)
  have g: "filter (has_category (lit ''GOOD''))
             (case items_found sample_analysis of None \<Rightarrow> [] | Some xs \<Rightarrow> xs) \<noteq> []"
    by (simp add: sample_analysis_def has_category_def)
  have f: "fits_index (case health_score sample_analysis of None \<Rightarrow> 5 | Some s \<Rightarrow> s)
           \<and> fits_index (10 - (case health_score sample_analysis of None \<Rightarrow> 5 | Some s \<Rightarrow> s))"
    by (simp add: sample_analysis_def fits_index_def index_max_def)
  show ?thesis
    using e g report_matches_specification [OF e n f] by (simp add: sample_lines)
qed

section \<open>The score bar outside 0..10\<close>

lemma count_list_replicate: "count_list (replicate n x) y = (if x = y then n else 0)"
  by (induction n) auto

lemma count_lit: "256 \<le> c \<Longrightarrow> count_list (lit s) c = 0"
  using lit_below [of c s] by (intro count_notin) auto

lemma digits_range: "c \<in> set (digits n) \<Longrightarrow> 48 \<le> c \<and> c \<le> 57"
proof (induction n rule: digits.induct)
  case (1 n)
  show ?case
  proof (cases "n < 10")
    case True
    with "1.prems" show ?thesis by (simp add: digits.simps [of n])
  next
    case False
    with "1.prems" have "c \<in> set (digits (n div 10)) \<or> c = 48 + n mod 10"
      by (auto simp: digits.simps [of n])
    with "1.IH" [OF False] show ?thesis by auto
  qed
qed

lemma count_str_int: "256 \<le> c \<Longrightarrow> count_list (str_int i) c = 0"
proof -
  assume c: "256 \<le> c"
  have "c \<notin> set (str_int i)"
    using digits_range [of c] c by (auto simp: str_int_def)
  then show ?thesis by (rule count_notin)
qed

text \<open>
  Claim C10, as the code has it. When the score and \<open>10 - score\<close> both fit an index-sized
  integer, the score line holds \<open>max(score, 0)\<close> filled glyphs followed by
  \<open>max(10 - score, 0)\<close> empty ones, whatever the score, and the formatter returns the report
  with that line; the two counts add up to 10 exactly when the score is between 0 and 10.
  When one of the two does not fit, the repetition raises \<open>OverflowError\<close> and so does the
  formatter.
\<close>

theorem score_bar_not_clamped:
  "(fits_index s \<and> fits_index (10 - s) \<longrightarrow>
      (\<exists>bar. score_line s = Inr bar
         \<and> bar = lit ''Health Score: '' @ replicate (nat (max s 0)) 0x2B50
                  @ replicate (nat (max (10 - s) 0)) 0x2606 @ lit '' ('' @ str_int s @ lit ''/10)''
         \<and> count_list bar 0x2B50 = nat (max s 0)
         \<and> count_list bar 0x2606 = nat (max (10 - s) 0)
         \<and> (count_list bar 0x2B50 + count_list bar 0x2606 = 10 \<longleftrightarrow> 0 \<le> s \<and> s \<le> 10)
         \<and> format_cart_analysis
              \<lparr>error = None, raw = r, items_found = None, health_score = Some s,
               encouragement = Some e\<rparr>
             = Inr (py_join [0x0A]
                 [report_title, report_rule, bar, [], [0x1F49A] @ lit '' '' @ e, [],
                  invitation])))
   \<and> (\<not> fits_index s \<or> \<not> fits_index (10 - s) \<longrightarrow>
        score_line s = Inl OverflowError
        \<and> format_cart_analysis
             \<lparr>error = None, raw = r, items_found = None, health_score = Some s,
              encouragement = Some e\<rparr>
            = Inl OverflowError)"
proof (intro conjI impI)
  assume fits: "fits_index s \<and> fits_index (10 - s)"
  define bar where "bar = lit ''Health Score: '' @ replicate (nat (max s 0)) 0x2B50
         @ replicate (nat (max (10 - s) 0)) 0x2606 @ lit '' ('' @ str_int s @ lit ''/10)''"
  have line: "score_line s = Inr bar"
    using fits by (simp add: score_line_spec spec_score_bar_def bar_def max_def)
  have filled: "count_list bar 0x2B50 = nat (max s 0)"
    unfolding bar_def by (simp add: count_list_replicate count_lit count_str_int)
  have unfilled: "count_list bar 0x2606 = nat (max (10 - s) 0)"
    unfolding bar_def by (simp add: count_list_replicate count_lit count_str_int)
  have total: "count_list bar 0x2B50 + count_list bar 0x2606 = 10 \<longleftrightarrow> 0 \<le> s \<and> s \<le> 10"
    unfolding filled unfilled by (auto simp: max_def)
  have out: "format_cart_analysis
        \<lparr>error = None, raw = r, items_found = None, health_score = Some s,
         encouragement = Some e\<rparr>
       = Inr (py_join [0x0A]
           [report_title, report_rule, bar, [], [0x1F49A] @ lit '' '' @ e, [], invitation])"
    by (simp add: format_cart_analysis_def report_lines_def block_def Let_def line
        del: py_join.simps)
  show "\<exists>bar. score_line s = Inr bar
         \<and> bar = lit ''Health Score: '' @ replicate (nat (max s 0)) 0x2B50
                  @ replicate (nat (max (10 - s) 0)) 0x2606 @ lit '' ('' @ str_int s @ lit ''/10)''
         \<and> count_list bar 0x2B50 = nat (max s 0)
         \<and> count_list bar 0x2606 = nat (max (10 - s) 0)
         \<and> (count_list bar 0x2B50 + count_list bar 0x2606 = 10 \<longleftrightarrow> 0 \<le> s \<and> s \<le> 10)
         \<and> format_cart_analysis
              \<lparr>error = None, raw = r, items_found = None, health_score = Some s,
               encouragement = Some e\<rparr>
             = Inr (py_join [0x0A]
                 [report_title, report_rule, bar, [], [0x1F49A] @ lit '' '' @ e, [],
                  invitation])"
    using line filled unfilled total out bar_def by blast
next
  assume "\<not> fits_index s \<or> \<not> fits_index (10 - s)"
  then show "score_line s = Inl OverflowError"
    by (rule score_line_overflow)
  then show "format_cart_analysis
             \<lparr>error = None, raw = r, items_found = None, health_score = Some s,
              encouragement = Some e\<rparr>
            = Inl OverflowError"
    by (simp add: format_cart_analysis_def report_lines_def Let_def)
qed

theorem score_bar_not_clamped_witness:
  "fits_index 12 \<and> fits_index (10 - 12)
   \<and> (\<exists>bar. score_line 12 = Inr bar
         \<and> count_list bar 0x2B50 = 12 \<and> count_list bar 0x2606 = 0)
   \<and> \<not> fits_index (10 ^ 20) \<and> score_line (10 ^ 20) = Inl OverflowError"
proof -
  have f: "fits_index 12 \<and> fits_index (10 - 12)"
    by (simp add: fits_index_def index_max_def)
  have n: "\<not> fits_index (10 ^ 20) \<or> \<not> fits_index (10 - 10 ^ 20)"
    by (simp add: fits_index_def index_max_def)
  have n1: "\<not> fits_index (10 ^ 20)"
    by (simp add: fits_index_def index_max_def)
  from score_bar_not_clamped [where s = 12 and r = None and e = "[]", THEN conjunct1,
      rule_format, OF f]
  obtain bar where "score_line 12 = Inr bar" "count_list bar 0x2B50 = nat (max 12 0)"
    "count_list bar 0x2606 = nat (max (10 - 12) 0)"
    by blast
  then have b: "\<exists>bar. score_line 12 = Inr bar
         \<and> count_list bar 0x2B50 = 12 \<and> count_list bar 0x2606 = 0"
    by simp
  from score_bar_not_clamped [where s = "10 ^ 20" and r = None and e = "[]", THEN conjunct2,
      rule_format, OF n]
  have o: "score_line (10 ^ 20) = Inl OverflowError"
    by blast
  from f b n1 o show ?thesis by blast
qed

text \<open>
  Counterexample to claim C10 as stated: for the score \<open>10 ^ 20\<close> the formatter does not
  render a bar, it raises \<open>OverflowError\<close>.
\<close>

theorem huge_score_raises:
  "format_cart_analysis
     \<lparr>error = None, raw = None, items_found = None, health_score = Some (10 ^ 20),
      encouragement = None\<rparr>
   = Inl OverflowError"
  by (simp add: format_cart_analysis_def report_lines_def score_line_def py_repeat_def
      fits_index_def index_max_def Let_def)

section \<open>Photos before the profile is complete\<close>







end
